theory Spec2Isabelle
  imports Complex_Main
begin

section \<open>Transform nodes of ratcave: \<^verbatim>\<open>ratcave/physical.py\<close>\<close>

text \<open>
  The classes \<^verbatim>\<open>Physical\<close> and \<^verbatim>\<open>PhysicalNode\<close> keep a position, a rotation and a
  scale, and derive from them 4x4 numpy arrays (model, normal and view matrix, locally
  and relative to a parent node). The entries are Python floats; they are idealised
  here as real numbers, so every statement below is about exact arithmetic.
\<close>

subsection \<open>4x4 arrays\<close>

text \<open>
  Every array of the module is created by \<^verbatim>\<open>np.zeros((4, 4))\<close> and written in place
  with \<^verbatim>\<open>m[:] = ...\<close>, so its shape is always (4, 4): sixteen entries in row-major
  order.
\<close>

datatype mat4 = Mat4
  real real real real
  real real real real
  real real real real
  real real real real

text \<open>\<^verbatim>\<open>np.zeros((4, 4))\<close>\<close>

definition zeros :: mat4 where
  "zeros = Mat4
     0 0 0 0
     0 0 0 0
     0 0 0 0
     0 0 0 0"

definition identity_matrix :: mat4 where
  "identity_matrix = Mat4
     1 0 0 0
     0 1 0 0
     0 0 1 0
     0 0 0 1"

text \<open>\<^verbatim>\<open>np.dot(a, b)\<close> on two (4, 4) arrays is the matrix product; \<^verbatim>\<open>a.T\<close> is the transpose.\<close>

fun dot :: "mat4 \<Rightarrow> mat4 \<Rightarrow> mat4" where
  "dot (Mat4 a00 a01 a02 a03 a10 a11 a12 a13 a20 a21 a22 a23 a30 a31 a32 a33)
       (Mat4 b00 b01 b02 b03 b10 b11 b12 b13 b20 b21 b22 b23 b30 b31 b32 b33) =
   Mat4
     (a00 * b00 + a01 * b10 + a02 * b20 + a03 * b30)
     (a00 * b01 + a01 * b11 + a02 * b21 + a03 * b31)
     (a00 * b02 + a01 * b12 + a02 * b22 + a03 * b32)
     (a00 * b03 + a01 * b13 + a02 * b23 + a03 * b33)
     (a10 * b00 + a11 * b10 + a12 * b20 + a13 * b30)
     (a10 * b01 + a11 * b11 + a12 * b21 + a13 * b31)
     (a10 * b02 + a11 * b12 + a12 * b22 + a13 * b32)
     (a10 * b03 + a11 * b13 + a12 * b23 + a13 * b33)
     (a20 * b00 + a21 * b10 + a22 * b20 + a23 * b30)
     (a20 * b01 + a21 * b11 + a22 * b21 + a23 * b31)
     (a20 * b02 + a21 * b12 + a22 * b22 + a23 * b32)
     (a20 * b03 + a21 * b13 + a22 * b23 + a23 * b33)
     (a30 * b00 + a31 * b10 + a32 * b20 + a33 * b30)
     (a30 * b01 + a31 * b11 + a32 * b21 + a33 * b31)
     (a30 * b02 + a31 * b12 + a32 * b22 + a33 * b32)
     (a30 * b03 + a31 * b13 + a32 * b23 + a33 * b33)"

fun transpose_matrix :: "mat4 \<Rightarrow> mat4" where
  "transpose_matrix (Mat4 a00 a01 a02 a03 a10 a11 a12 a13 a20 a21 a22 a23 a30 a31 a32 a33) =
   Mat4
     a00 a10 a20 a30
     a01 a11 a21 a31
     a02 a12 a22 a32
     a03 a13 a23 a33"

fun scalar_mult :: "real \<Rightarrow> mat4 \<Rightarrow> mat4" where
  "scalar_mult c (Mat4 a00 a01 a02 a03 a10 a11 a12 a13 a20 a21 a22 a23 a30 a31 a32 a33) =
   Mat4
     (c * a00) (c * a01) (c * a02) (c * a03)
     (c * a10) (c * a11) (c * a12) (c * a13)
     (c * a20) (c * a21) (c * a22) (c * a23)
     (c * a30) (c * a31) (c * a32) (c * a33)"

text \<open>
  The determinant by expansion along the first row, and the adjugate (the transposed
  matrix of cofactors). They are not numpy calls of the module: they serve to compute
  the inverse below.
\<close>

definition det3 ::
  "real \<Rightarrow> real \<Rightarrow> real \<Rightarrow> real \<Rightarrow> real \<Rightarrow> real \<Rightarrow> real \<Rightarrow> real \<Rightarrow> real \<Rightarrow> real" where
  "det3 a b c d e f g h i = a * (e * i - f * h) - b * (d * i - f * g) + c * (d * h - e * g)"

fun determinant :: "mat4 \<Rightarrow> real" where
  "determinant (Mat4 a00 a01 a02 a03 a10 a11 a12 a13 a20 a21 a22 a23 a30 a31 a32 a33) =
     a00 * det3 a11 a12 a13 a21 a22 a23 a31 a32 a33
   - a01 * det3 a10 a12 a13 a20 a22 a23 a30 a32 a33
   + a02 * det3 a10 a11 a13 a20 a21 a23 a30 a31 a33
   - a03 * det3 a10 a11 a12 a20 a21 a22 a30 a31 a32"

fun adjugate :: "mat4 \<Rightarrow> mat4" where
  "adjugate (Mat4 a00 a01 a02 a03 a10 a11 a12 a13 a20 a21 a22 a23 a30 a31 a32 a33) =
   Mat4
     (det3 a11 a12 a13 a21 a22 a23 a31 a32 a33)
     (- det3 a01 a02 a03 a21 a22 a23 a31 a32 a33)
     (det3 a01 a02 a03 a11 a12 a13 a31 a32 a33)
     (- det3 a01 a02 a03 a11 a12 a13 a21 a22 a23)
     (- det3 a10 a12 a13 a20 a22 a23 a30 a32 a33)
     (det3 a00 a02 a03 a20 a22 a23 a30 a32 a33)
     (- det3 a00 a02 a03 a10 a12 a13 a30 a32 a33)
     (det3 a00 a02 a03 a10 a12 a13 a20 a22 a23)
     (det3 a10 a11 a13 a20 a21 a23 a30 a31 a33)
     (- det3 a00 a01 a03 a20 a21 a23 a30 a31 a33)
     (det3 a00 a01 a03 a10 a11 a13 a30 a31 a33)
     (- det3 a00 a01 a03 a10 a11 a13 a20 a21 a23)
     (- det3 a10 a11 a12 a20 a21 a22 a30 a31 a32)
     (det3 a00 a01 a02 a20 a21 a22 a30 a31 a32)
     (- det3 a00 a01 a02 a10 a11 a12 a30 a31 a32)
     (det3 a00 a01 a02 a10 a11 a12 a20 a21 a22)"

subsection \<open>Errors\<close>

text \<open>
  \<^verbatim>\<open>ValueError\<close> is raised by the \<^verbatim>\<open>rot\<close> setter, \<^verbatim>\<open>TypeError\<close> by Python itself when
  a call unpacks something that is not iterable or passes the wrong number of arguments,
  and \<^verbatim>\<open>SingularMatrixError\<close> (the name the spec gives it) by the matrix inversion.
\<close>

datatype error = ValueError | TypeError | SingularMatrixError

text \<open>
  Modelled from the spec: \<^verbatim>\<open>trans.inverse_matrix\<close> (module \<^verbatim>\<open>_transformations\<close>, not
  among the sources). The spec: it returns the inverse of the matrix, and a matrix that
  is "non-invertible" makes it fail with \<^verbatim>\<open>SingularMatrixError\<close>. A matrix is invertible
  exactly when its determinant is not zero (\<open>inverse_matrix_Inr_iff\<close>,
  \<open>inverse_matrix_Inl_iff\<close> below), and the inverse is then the adjugate divided by the
  determinant.
\<close>

definition inverse_matrix :: "mat4 \<Rightarrow> error + mat4" where
  "inverse_matrix m =
     (if determinant m = 0 then Inl SingularMatrixError
      else Inr (scalar_mult (1 / determinant m) (adjugate m)))"

subsection \<open>Position, scale and rotation values (\<^verbatim>\<open>utils.rotations\<close>)\<close>

text \<open>
  The module \<^verbatim>\<open>utils/rotations.py\<close>, imported as \<^verbatim>\<open>rotutils\<close>, is not among the sources.
  Its classes, their constructors and their \<^verbatim>\<open>to_matrix\<close> methods are modelled from what
  the spec says about them, one by one.
\<close>

text \<open>
  Modelled from the spec: class \<^verbatim>\<open>Translation\<close>. The spec: a position has "3
  floating-point components (x, y, z)".
\<close>

datatype Translation = Translation real real real

text \<open>
  Modelled from the spec: class \<^verbatim>\<open>Scale\<close>. The spec: "either one scalar (uniform) or 3
  components (non-uniform)".
\<close>

datatype Scale = ScaleUniform real | ScaleXYZ real real real

text \<open>
  Modelled from the spec: classes \<^verbatim>\<open>RotationEulerDegrees\<close> and \<^verbatim>\<open>RotationQuaternion\<close>, the
  two subclasses of \<^verbatim>\<open>RotationBase\<close>. The spec: "three angles in degrees, one per axis"
  or "four components (x, y, z, w)".
\<close>

datatype Rotation =
    RotationEulerDegrees real real real
  | RotationQuaternion real real real real

text \<open>
  Modelled from the spec: the constructor \<^verbatim>\<open>Translation(*coords)\<close>. The argument is the
  list of the values passed; a call with a number of arguments the class does not take
  is Python's \<^verbatim>\<open>TypeError\<close>.
\<close>

fun Translation_init :: "real list \<Rightarrow> error + Translation" where
  "Translation_init [x, y, z] = Inr (Translation x y z)"
| "Translation_init _ = Inl TypeError"

text \<open>
  Modelled from the spec: the constructor \<^verbatim>\<open>Scale(s)\<close> or \<^verbatim>\<open>Scale(*coords)\<close>, with one
  factor or three.
\<close>

fun Scale_init :: "real list \<Rightarrow> error + Scale" where
  "Scale_init [s] = Inr (ScaleUniform s)"
| "Scale_init [x, y, z] = Inr (ScaleXYZ x y z)"
| "Scale_init _ = Inl TypeError"

text \<open>
  Modelled from the spec: the constructor call \<^verbatim>\<open>RotationEulerDegrees(*rotation)\<close> on a
  sequence of any length. Called with three values, the class holds them as its three
  angles; the constructors \<open>RotationEulerDegrees\<close> and \<open>RotationQuaternion\<close> of the
  datatype are these calls with three and with four values. What the class does with
  another number of values is said neither by the spec nor by the sources: it is the
  parameter \<open>other_arity\<close>, which raises or gives the three angles of the Euler-degrees
  rotation that is built, since the constructor of a class builds an instance of that
  class.
\<close>

definition RotationEulerDegrees_init ::
  "(real list \<Rightarrow> error + real \<times> real \<times> real) \<Rightarrow> real list \<Rightarrow> error + Rotation" where
  "RotationEulerDegrees_init other_arity xs =
     (if length xs = 3 then Inr (RotationEulerDegrees (xs ! 0) (xs ! 1) (xs ! 2))
      else
        (case other_arity xs of
           Inl e \<Rightarrow> Inl e
         | Inr (x, y, z) \<Rightarrow> Inr (RotationEulerDegrees x y z)))"

text \<open>
  Modelled from the spec: \<^verbatim>\<open>Translation.to_matrix\<close>, "a translation matrix with the 3
  components in the last column".
\<close>

fun Translation_to_matrix :: "Translation \<Rightarrow> mat4" where
  "Translation_to_matrix (Translation x y z) = Mat4
     1 0 0 x
     0 1 0 y
     0 0 1 z
     0 0 0 1"

text \<open>
  Modelled from the spec: \<^verbatim>\<open>Scale.to_matrix\<close>, "a diagonal matrix; uniform scale applies
  the same factor to all three diagonal entries, non-uniform applies per-axis factors;
  the homogeneous (4,4) entry is always 1".
\<close>

fun Scale_to_matrix :: "Scale \<Rightarrow> mat4" where
  "Scale_to_matrix (ScaleUniform s) = Mat4
     s 0 0 0
     0 s 0 0
     0 0 s 0
     0 0 0 1"
| "Scale_to_matrix (ScaleXYZ x y z) = Mat4
     x 0 0 0
     0 y 0 0
     0 0 z 0
     0 0 0 1"

text \<open>
  Modelled from the spec: the "degree-to-radian scaling" of
  \<^verbatim>\<open>RotationEulerDegrees.to_matrix\<close>.
\<close>

definition radians :: "real \<Rightarrow> real" where
  "radians d = d * pi / 180"

text \<open>
  Modelled from the spec: the "standard axis-rotation formulas" of
  \<^verbatim>\<open>RotationEulerDegrees.to_matrix\<close>, about the x axis.
\<close>

definition rotation_x :: "real \<Rightarrow> mat4" where
  "rotation_x a = Mat4
     1 0 0 0
     0 (cos a) (- sin a) 0
     0 (sin a) (cos a) 0
     0 0 0 1"

text \<open>Modelled from the spec: the same, about the y axis.\<close>

definition rotation_y :: "real \<Rightarrow> mat4" where
  "rotation_y a = Mat4
     (cos a) 0 (sin a) 0
     0 1 0 0
     (- sin a) 0 (cos a) 0
     0 0 0 1"

text \<open>Modelled from the spec: the same, about the z axis.\<close>

definition rotation_z :: "real \<Rightarrow> mat4" where
  "rotation_z a = Mat4
     (cos a) (- sin a) 0 0
     (sin a) (cos a) 0 0
     0 0 1 0
     0 0 0 1"

text \<open>
  Modelled from the spec: \<^verbatim>\<open>RotationEulerDegrees.to_matrix\<close> and
  \<^verbatim>\<open>RotationQuaternion.to_matrix\<close>. The spec: the axis rotations are composed "using a
  fixed, explicit axis order", for which it names intrinsic X, then Y, then Z; the
  quaternion uses "the standard quaternion-to-rotation-matrix formula", and its result
  on a quaternion that is not normalised is left to the implementation (here: the same
  formula, without normalising).
\<close>

fun Rotation_to_matrix :: "Rotation \<Rightarrow> mat4" where
  "Rotation_to_matrix (RotationEulerDegrees x y z) =
     dot (dot (rotation_x (radians x)) (rotation_y (radians y))) (rotation_z (radians z))"
| "Rotation_to_matrix (RotationQuaternion x y z w) = Mat4
     (1 - 2 * (y * y + z * z)) (2 * (x * y - z * w)) (2 * (x * z + y * w)) 0
     (2 * (x * y + z * w)) (1 - 2 * (x * x + z * z)) (2 * (y * z - x * w)) 0
     (2 * (x * z - y * w)) (2 * (y * z + x * w)) (1 - 2 * (x * x + y * y)) 0
     0 0 0 1"

text \<open>
  Modelled from the spec: the rotations it calls valid. Euler-degrees "accepts any real
  values"; a quaternion is to be kept normalised.
\<close>

fun valid_rotation :: "Rotation \<Rightarrow> bool" where
  "valid_rotation (RotationEulerDegrees x y z) = True"
| "valid_rotation (RotationQuaternion x y z w) = (x * x + y * y + z * z + w * w = 1)"

text \<open>
  Modelled from the spec: the scales it calls valid, those that are not degenerate
  (no zero factor).
\<close>

fun valid_scale :: "Scale \<Rightarrow> bool" where
  "valid_scale (ScaleUniform s) = (s \<noteq> 0)"
| "valid_scale (ScaleXYZ x y z) = (x \<noteq> 0 \<and> y \<noteq> 0 \<and> z \<noteq> 0)"

subsection \<open>\<^verbatim>\<open>class Physical\<close>\<close>

text \<open>
  The attributes \<^verbatim>\<open>_pos\<close>, \<^verbatim>\<open>_rot\<close> and \<^verbatim>\<open>_scale\<close> (read through the properties
  \<^verbatim>\<open>pos\<close>, \<^verbatim>\<open>rot\<close> and \<^verbatim>\<open>scale\<close>) and the three local matrices.
\<close>

record Physical =
  rot :: Rotation
  pos :: Translation
  scale :: Scale
  model_matrix :: mat4
  normal_matrix :: mat4
  view_matrix :: mat4

text \<open>
  What a caller may assign to one of the three properties: an instance of the class the
  setter tests for with \<^verbatim>\<open>isinstance\<close>, a sequence of floats (it has \<^verbatim>\<open>__iter__\<close>), or a
  bare float (it has not).
\<close>

datatype 'a coords = Instance 'a | Sequence "real list" | Number real

text \<open>
  The setters. An exception leaves the object as it was, since each setter raises
  before it assigns. \<^verbatim>\<open>Translation(*coords)\<close> on a bare float is a \<^verbatim>\<open>TypeError\<close> (the
  argument after \<^verbatim>\<open>*\<close> must be iterable). In the \<^verbatim>\<open>rot\<close> setter a sequence whose length
  is neither 3 nor 4 matches no branch of the inner \<^verbatim>\<open>if\<close>, and the \<^verbatim>\<open>else\<close> with the
  \<^verbatim>\<open>raise\<close> belongs to the outer one: the setter returns without assigning. Under the
  two length tests the constructors are called with exactly three and exactly four
  values.
\<close>

fun pos_setter :: "Translation coords \<Rightarrow> Physical \<Rightarrow> error + Physical" where
  "pos_setter (Instance t) self = Inr (self\<lparr>pos := t\<rparr>)"
| "pos_setter (Sequence xs) self =
     (case Translation_init xs of
        Inl e \<Rightarrow> Inl e
      | Inr t \<Rightarrow> Inr (self\<lparr>pos := t\<rparr>))"
| "pos_setter (Number x) self = Inl TypeError"

fun rot_setter :: "Rotation coords \<Rightarrow> Physical \<Rightarrow> error + Physical" where
  "rot_setter (Instance r) self = Inr (self\<lparr>rot := r\<rparr>)"
| "rot_setter (Sequence xs) self =
     (if length xs = 3 then
        Inr (self\<lparr>rot := RotationEulerDegrees (xs ! 0) (xs ! 1) (xs ! 2)\<rparr>)
      else if length xs = 4 then
        Inr (self\<lparr>rot := RotationQuaternion (xs ! 0) (xs ! 1) (xs ! 2) (xs ! 3)\<rparr>)
      else Inr self)"
| "rot_setter (Number x) self = Inl ValueError"

fun scale_setter :: "Scale coords \<Rightarrow> Physical \<Rightarrow> error + Physical" where
  "scale_setter (Instance s) self = Inr (self\<lparr>scale := s\<rparr>)"
| "scale_setter (Sequence xs) self =
     (case Scale_init xs of
        Inl e \<Rightarrow> Inl e
      | Inr s \<Rightarrow> Inr (self\<lparr>scale := s\<rparr>))"
| "scale_setter (Number x) self =
     (case Scale_init [x] of
        Inl e \<Rightarrow> Inl e
      | Inr s \<Rightarrow> Inr (self\<lparr>scale := s\<rparr>))"

text \<open>
  \<^verbatim>\<open>Physical.update\<close>. The four assignments write the arrays in place, one after the
  other, and each inversion may raise: the result is either the object after all four
  (\<open>Inr\<close>), or the exception together with the object as the assignments before the
  \<^verbatim>\<open>raise\<close> have left it (\<open>Inl\<close>). The inherited \<^verbatim>\<open>update\<close> of the observer base class,
  called first, is not among the sources; it is taken not to touch these six attributes.
\<close>

definition Physical_update :: "Physical \<Rightarrow> (error \<times> Physical) + Physical" where
  "Physical_update self =
     (let self1 = self\<lparr>model_matrix :=
                    dot (Translation_to_matrix (pos self)) (Rotation_to_matrix (rot self))\<rparr>
      in case inverse_matrix (model_matrix self1) of
           Inl e \<Rightarrow> Inl (e, self1)
         | Inr v \<Rightarrow>
            (let self2 = self1\<lparr>view_matrix := v\<rparr>;
                 self3 = self2\<lparr>model_matrix :=
                    dot (model_matrix self2) (Scale_to_matrix (scale self2))\<rparr>
             in case inverse_matrix (transpose_matrix (model_matrix self3)) of
                  Inl e \<Rightarrow> Inl (e, self3)
                | Inr n \<Rightarrow> Inr (self3\<lparr>normal_matrix := n\<rparr>)))"

text \<open>
  \<^verbatim>\<open>Physical.__init__(position, rotation, scale)\<close>: the rotation is always built by
  \<^verbatim>\<open>RotationEulerDegrees(*rotation)\<close>, the position by \<^verbatim>\<open>Translation(*position)\<close>, the
  scale by \<^verbatim>\<open>Scale(scale)\<close> from the one float the docstring asks for; the matrices start
  as zeros and \<^verbatim>\<open>update()\<close> runs before the constructor returns. An exception anywhere
  means that no object is constructed. The first parameter is what the class
  \<^verbatim>\<open>RotationEulerDegrees\<close> does with a number of values other than three (see
  \<open>RotationEulerDegrees_init\<close>).
\<close>

definition Physical_init ::
  "(real list \<Rightarrow> error + real \<times> real \<times> real) \<Rightarrow>
     real list \<Rightarrow> real list \<Rightarrow> real \<Rightarrow> error + Physical" where
  "Physical_init other_arity position rotation scale' =
     (case RotationEulerDegrees_init other_arity rotation of
        Inl e \<Rightarrow> Inl e
      | Inr r \<Rightarrow>
         (case Translation_init position of
            Inl e \<Rightarrow> Inl e
          | Inr p \<Rightarrow>
             (case Scale_init [scale'] of
                Inl e \<Rightarrow> Inl e
              | Inr s \<Rightarrow>
                 (case Physical_update
                    \<lparr>rot = r, pos = p, scale = s,
                     model_matrix = zeros, normal_matrix = zeros, view_matrix = zeros\<rparr> of
                    Inl (e, self) \<Rightarrow> Inl e
                  | Inr self \<Rightarrow> Inr self))))"

subsection \<open>\<^verbatim>\<open>class PhysicalNode\<close>\<close>

text \<open>
  A \<^verbatim>\<open>PhysicalNode\<close> is a \<^verbatim>\<open>Physical\<close> with three global matrices and the \<^verbatim>\<open>parent\<close>
  attribute of \<^verbatim>\<open>SceneNode\<close> (\<^verbatim>\<open>None\<close> or another node). \<^verbatim>\<open>update\<close> only reads the
  parent, so the parent is held here as the value the reference points to when \<^verbatim>\<open>update\<close>
  runs. A node cannot be its own ancestor in this model, which is the hierarchy invariant
  of the spec (no cycles).
\<close>

datatype PhysicalNode = PhysicalNode
  (physical: Physical)
  (model_matrix_global: mat4)
  (normal_matrix_global: mat4)
  (view_matrix_global: mat4)
  (parent: "PhysicalNode option")

text \<open>
  \<^verbatim>\<open>PhysicalNode.update\<close>: the local update first (an exception there leaves the global
  matrices alone), then the three global matrices, from the parent's if there is one.
\<close>

fun PhysicalNode_update :: "PhysicalNode \<Rightarrow> (error \<times> PhysicalNode) + PhysicalNode" where
  "PhysicalNode_update (PhysicalNode self mg ng vg par) =
     (case Physical_update self of
        Inl (e, self') \<Rightarrow> Inl (e, PhysicalNode self' mg ng vg par)
      | Inr self' \<Rightarrow>
         (case par of
            Some p \<Rightarrow>
              Inr (PhysicalNode self'
                     (dot (model_matrix_global p) (model_matrix self'))
                     (dot (normal_matrix_global p) (normal_matrix self'))
                     (dot (normal_matrix_global p) (normal_matrix self'))
                     par)
          | None \<Rightarrow>
              Inr (PhysicalNode self'
                     (model_matrix self')
                     (normal_matrix self')
                     (view_matrix self')
                     par)))"


subsection \<open>Auxiliary values for the proofs\<close>

text \<open>
  The translation by the opposite vector and the scale by the reciprocal factors give
  the inverses of the position and scale matrices in closed form.
\<close>

fun Translation_neg :: "Translation \<Rightarrow> Translation" where
  "Translation_neg (Translation x y z) = Translation (- x) (- y) (- z)"

fun Scale_reciprocal :: "Scale \<Rightarrow> Scale" where
  "Scale_reciprocal (ScaleUniform s) = ScaleUniform (1 / s)"
| "Scale_reciprocal (ScaleXYZ x y z) = ScaleXYZ (1 / x) (1 / y) (1 / z)"

text \<open>\<^verbatim>\<open>m[:3, :3]\<close>, the block of a matrix that acts on directions.\<close>

fun upper_left_3x3 :: "mat4 \<Rightarrow> real list list" where
  "upper_left_3x3 (Mat4 a00 a01 a02 a03 a10 a11 a12 a13 a20 a21 a22 a23 a30 a31 a32 a33) =
     [[a00, a01, a02], [a10, a11, a12], [a20, a21, a22]]"

text \<open>
  Concrete nodes. \<open>example_physical\<close> is an object before its first \<^verbatim>\<open>update\<close>, turned by
  90 degrees about z; \<open>offset_physical\<close> is what \<^verbatim>\<open>Physical(position=(1, 0, 0))\<close> holds
  before the \<^verbatim>\<open>update\<close> of its constructor; \<open>degenerate_physical\<close> is a default object
  after \<^verbatim>\<open>scale = 0\<close> and \<^verbatim>\<open>pos = (1, 0, 0)\<close> have been assigned.
\<close>

definition example_physical :: Physical where
  "example_physical =
     \<lparr>rot = RotationEulerDegrees 0 0 90, pos = Translation 1 2 3, scale = ScaleUniform 2,
      model_matrix = zeros, normal_matrix = zeros, view_matrix = zeros\<rparr>"

definition offset_physical :: Physical where
  "offset_physical =
     \<lparr>rot = RotationEulerDegrees 0 0 0, pos = Translation 1 0 0, scale = ScaleUniform 1,
      model_matrix = zeros, normal_matrix = zeros, view_matrix = zeros\<rparr>"

definition default_physical :: Physical where
  "default_physical =
     \<lparr>rot = RotationEulerDegrees 0 0 0, pos = Translation 0 0 0, scale = ScaleUniform 1,
      model_matrix = identity_matrix, normal_matrix = identity_matrix,
      view_matrix = identity_matrix\<rparr>"

definition degenerate_physical :: Physical where
  "degenerate_physical =
     \<lparr>rot = RotationEulerDegrees 0 0 0, pos = Translation 1 0 0, scale = ScaleUniform 0,
      model_matrix = identity_matrix, normal_matrix = identity_matrix,
      view_matrix = identity_matrix\<rparr>"

text \<open>
  \<open>root_node\<close> is a node without parent at position (1, 0, 0), with the matrices its
  \<^verbatim>\<open>update\<close> computes; \<open>child_node\<close> is a default node below it and \<open>example_child\<close> is
  \<open>example_physical\<close> below it, both before their \<^verbatim>\<open>update\<close>.
\<close>

definition root_node :: PhysicalNode where
  "root_node = PhysicalNode
     \<lparr>rot = RotationEulerDegrees 0 0 0, pos = Translation 1 0 0, scale = ScaleUniform 1,
      model_matrix = Mat4 1 0 0 1  0 1 0 0  0 0 1 0  0 0 0 1,
      normal_matrix = Mat4 1 0 0 0  0 1 0 0  0 0 1 0  (- 1) 0 0 1,
      view_matrix = Mat4 1 0 0 (- 1)  0 1 0 0  0 0 1 0  0 0 0 1\<rparr>
     (Mat4 1 0 0 1  0 1 0 0  0 0 1 0  0 0 0 1)
     (Mat4 1 0 0 0  0 1 0 0  0 0 1 0  (- 1) 0 0 1)
     (Mat4 1 0 0 (- 1)  0 1 0 0  0 0 1 0  0 0 0 1)
     None"

definition child_node :: PhysicalNode where
  "child_node = PhysicalNode
     \<lparr>rot = RotationEulerDegrees 0 0 0, pos = Translation 0 0 0, scale = ScaleUniform 1,
      model_matrix = zeros, normal_matrix = zeros, view_matrix = zeros\<rparr>
     zeros zeros zeros (Some root_node)"

text \<open>\<open>child_node\<close> after its \<^verbatim>\<open>update\<close>.\<close>

definition child_node_updated :: PhysicalNode where
  "child_node_updated = PhysicalNode
     \<lparr>rot = RotationEulerDegrees 0 0 0, pos = Translation 0 0 0, scale = ScaleUniform 1,
      model_matrix = identity_matrix, normal_matrix = identity_matrix,
      view_matrix = identity_matrix\<rparr>
     (Mat4 1 0 0 1  0 1 0 0  0 0 1 0  0 0 0 1)
     (Mat4 1 0 0 0  0 1 0 0  0 0 1 0  (- 1) 0 0 1)
     (Mat4 1 0 0 0  0 1 0 0  0 0 1 0  (- 1) 0 0 1)
     (Some root_node)"

definition example_child :: PhysicalNode where
  "example_child = PhysicalNode example_physical zeros zeros zeros (Some root_node)"

definition example_root :: PhysicalNode where
  "example_root = PhysicalNode example_physical zeros zeros zeros None"

section \<open>Matrix algebra\<close>

lemma dot_assoc: "dot (dot a b) c = dot a (dot b c)"
  by (cases a; cases b; cases c) (simp add: algebra_simps)

lemma dot_identity_left: "dot identity_matrix a = a"
  by (cases a) (simp add: identity_matrix_def)

lemma dot_identity_right: "dot a identity_matrix = a"
  by (cases a) (simp add: identity_matrix_def)

lemma transpose_dot:
  "transpose_matrix (dot a b) = dot (transpose_matrix b) (transpose_matrix a)"
  by (cases a; cases b) (simp add: algebra_simps)

lemma transpose_transpose: "transpose_matrix (transpose_matrix a) = a"
  by (cases a) simp

lemma transpose_identity: "transpose_matrix identity_matrix = identity_matrix"
  by (simp add: identity_matrix_def)

lemma scalar_mult_dot_left: "dot (scalar_mult c a) b = scalar_mult c (dot a b)"
  by (cases a; cases b) (simp add: algebra_simps)

lemma scalar_mult_dot_right: "dot a (scalar_mult c b) = scalar_mult c (dot a b)"
  by (cases a; cases b) (simp add: algebra_simps)

lemma scalar_mult_scalar_mult: "scalar_mult c (scalar_mult d a) = scalar_mult (c * d) a"
  by (cases a) simp

lemma scalar_mult_one: "scalar_mult 1 a = a"
  by (cases a) simp

text \<open>The two Laplace identities of the adjugate, and the determinant of a product.\<close>

lemma dot_adjugate: "dot a (adjugate a) = scalar_mult (determinant a) identity_matrix"
  by (cases a) (simp add: identity_matrix_def det3_def algebra_simps)

lemma adjugate_dot: "dot (adjugate a) a = scalar_mult (determinant a) identity_matrix"
  by (cases a) (simp add: identity_matrix_def det3_def algebra_simps)

lemma determinant_identity: "determinant identity_matrix = 1"
  by (simp add: identity_matrix_def det3_def)

lemma determinant_transpose: "determinant (transpose_matrix a) = determinant a"
  by (cases a) (simp add: det3_def algebra_simps)

lemma determinant_dot: "determinant (dot a b) = determinant a * determinant b"
  by (cases a; cases b; hypsubst_thin)
    (simp only: dot.simps determinant.simps det3_def, algebra)

subsection \<open>\<open>inverse_matrix\<close> returns the inverse, and fails exactly when there is none\<close>

lemma inverse_matrix_right:
  assumes "inverse_matrix a = Inr b"
  shows "dot a b = identity_matrix"
proof -
  from assms have d: "determinant a \<noteq> 0"
    and b: "b = scalar_mult (1 / determinant a) (adjugate a)"
    by (auto simp: inverse_matrix_def split: if_splits)
  show ?thesis
    using d
    by (simp add: b scalar_mult_dot_right dot_adjugate scalar_mult_scalar_mult
        scalar_mult_one)
qed

lemma inverse_matrix_left:
  assumes "inverse_matrix a = Inr b"
  shows "dot b a = identity_matrix"
proof -
  from assms have d: "determinant a \<noteq> 0"
    and b: "b = scalar_mult (1 / determinant a) (adjugate a)"
    by (auto simp: inverse_matrix_def split: if_splits)
  show ?thesis
    using d
    by (simp add: b scalar_mult_dot_left adjugate_dot scalar_mult_scalar_mult
        scalar_mult_one)
qed

lemma determinant_nonzero:
  assumes "dot a b = identity_matrix"
  shows "determinant a \<noteq> 0"
proof
  assume "determinant a = 0"
  then have "determinant (dot a b) = 0"
    by (simp add: determinant_dot)
  with assms show False
    by (simp add: determinant_identity)
qed

lemma inverse_matrix_unique:
  assumes "dot a b = identity_matrix"
  shows "inverse_matrix a = Inr b"
proof -
  have d: "determinant a \<noteq> 0"
    using assms by (rule determinant_nonzero)
  define c where "c = scalar_mult (1 / determinant a) (adjugate a)"
  have inv: "inverse_matrix a = Inr c"
    using d by (simp add: inverse_matrix_def c_def)
  have "c = dot c (dot a b)"
    by (simp add: assms dot_identity_right)
  also have "\<dots> = dot (dot c a) b"
    by (simp add: dot_assoc)
  also have "\<dots> = b"
    by (simp add: inverse_matrix_left [OF inv] dot_identity_left)
  finally show ?thesis
    using inv by simp
qed

lemma inverse_matrix_Inr_iff: "inverse_matrix a = Inr b \<longleftrightarrow> dot a b = identity_matrix"
  using inverse_matrix_right inverse_matrix_unique by blast

lemma inverse_matrix_Inl_iff:
  "inverse_matrix a = Inl e \<longleftrightarrow>
     e = SingularMatrixError \<and> (\<forall>b. dot a b \<noteq> identity_matrix)"
proof
  assume l: "inverse_matrix a = Inl e"
  then have "e = SingularMatrixError"
    by (auto simp: inverse_matrix_def split: if_splits)
  moreover have "dot a b \<noteq> identity_matrix" for b
    using l inverse_matrix_unique [of a b] by auto
  ultimately show "e = SingularMatrixError \<and> (\<forall>b. dot a b \<noteq> identity_matrix)"
    by simp
next
  assume r: "e = SingularMatrixError \<and> (\<forall>b. dot a b \<noteq> identity_matrix)"
  show "inverse_matrix a = Inl e"
  proof (cases "inverse_matrix a")
    case (Inl x)
    then show ?thesis
      using r by (auto simp: inverse_matrix_def split: if_splits)
  next
    case (Inr b)
    then show ?thesis
      using r inverse_matrix_right by blast
  qed
qed

lemma inverse_matrix_error: "inverse_matrix a = Inl e \<Longrightarrow> e = SingularMatrixError"
  by (simp add: inverse_matrix_Inl_iff)

lemma inverse_matrix_transpose:
  assumes "inverse_matrix a = Inr b"
  shows "inverse_matrix (transpose_matrix a) = Inr (transpose_matrix b)"
proof -
  have "dot b a = identity_matrix"
    using assms by (rule inverse_matrix_left)
  then have "dot (transpose_matrix a) (transpose_matrix b) = identity_matrix"
    by (simp add: transpose_dot [symmetric] transpose_identity)
  then show ?thesis
    by (rule inverse_matrix_unique)
qed

lemma inverse_matrix_dot:
  assumes "inverse_matrix a = Inr a'" and "inverse_matrix b = Inr b'"
  shows "inverse_matrix (dot a b) = Inr (dot b' a')"
proof -
  have "dot (dot a b) (dot b' a') = dot a (dot (dot b b') a')"
    by (simp add: dot_assoc)
  also have "\<dots> = identity_matrix"
    by (simp add: inverse_matrix_right [OF assms(1)] inverse_matrix_right [OF assms(2)]
        dot_identity_left)
  finally show ?thesis
    by (rule inverse_matrix_unique)
qed

subsection \<open>The matrices of valid rotations, positions and scales are invertible\<close>

lemma sin_sin_cos_cos: "sin a * sin a + cos a * cos a = (1::real)"
  by (simp add: add.commute)

lemma inverse_rotation_x: "inverse_matrix (rotation_x a) = Inr (transpose_matrix (rotation_x a))"
  by (rule inverse_matrix_unique)
    (simp add: rotation_x_def identity_matrix_def sin_sin_cos_cos)

lemma inverse_rotation_y: "inverse_matrix (rotation_y a) = Inr (transpose_matrix (rotation_y a))"
  by (rule inverse_matrix_unique)
    (simp add: rotation_y_def identity_matrix_def sin_sin_cos_cos)

lemma inverse_rotation_z: "inverse_matrix (rotation_z a) = Inr (transpose_matrix (rotation_z a))"
  by (rule inverse_matrix_unique)
    (simp add: rotation_z_def identity_matrix_def sin_sin_cos_cos)

lemma quaternion_orthonormal:
  assumes "x * x + y * y + z * z + w * w = (1::real)"
  shows "dot (Rotation_to_matrix (RotationQuaternion x y z w))
           (transpose_matrix (Rotation_to_matrix (RotationQuaternion x y z w)))
         = identity_matrix"
  using assms
  apply (simp add: identity_matrix_def)
  apply (intro conjI)
          apply algebra+
  done

text \<open>A valid rotation has an orthonormal matrix: its inverse is its transpose.\<close>

lemma inverse_rotation:
  assumes "valid_rotation r"
  shows "inverse_matrix (Rotation_to_matrix r) = Inr (transpose_matrix (Rotation_to_matrix r))"
proof (cases r)
  case (RotationEulerDegrees x y z)
  have "inverse_matrix
          (dot (dot (rotation_x (radians x)) (rotation_y (radians y)))
             (rotation_z (radians z)))
        = Inr (dot (transpose_matrix (rotation_z (radians z)))
                (dot (transpose_matrix (rotation_y (radians y)))
                   (transpose_matrix (rotation_x (radians x)))))"
    by (intro inverse_matrix_dot inverse_rotation_x inverse_rotation_y inverse_rotation_z)
  then show ?thesis
    by (simp add: RotationEulerDegrees transpose_dot)
next
  case (RotationQuaternion x y z w)
  with assms have "x * x + y * y + z * z + w * w = 1"
    by simp
  then show ?thesis
    unfolding RotationQuaternion by (intro inverse_matrix_unique quaternion_orthonormal)
qed

lemma inverse_translation:
  "inverse_matrix (Translation_to_matrix p)
     = Inr (Translation_to_matrix (Translation_neg p))"
  by (rule inverse_matrix_unique) (cases p, simp add: identity_matrix_def)

lemma inverse_scale:
  assumes "valid_scale s"
  shows "inverse_matrix (Scale_to_matrix s) = Inr (Scale_to_matrix (Scale_reciprocal s))"
  using assms
  by (intro inverse_matrix_unique) (cases s, simp_all add: identity_matrix_def)

lemma determinant_scale_zero: "\<not> valid_scale s \<Longrightarrow> determinant (Scale_to_matrix s) = 0"
  by (cases s) (auto simp: det3_def)

lemma inverse_singular_scale:
  assumes "\<not> valid_scale s"
  shows "inverse_matrix (transpose_matrix (dot a (Scale_to_matrix s)))
           = Inl SingularMatrixError"
  using assms
  by (simp add: inverse_matrix_def determinant_transpose determinant_dot
      determinant_scale_zero)

lemma inverse_position_rotation:
  assumes "valid_rotation r"
  shows "inverse_matrix (dot (Translation_to_matrix p) (Rotation_to_matrix r))
           = Inr (dot (transpose_matrix (Rotation_to_matrix r))
                   (Translation_to_matrix (Translation_neg p)))"
  by (intro inverse_matrix_dot inverse_translation inverse_rotation assms)

lemma inverse_transpose_model:
  assumes "valid_rotation r" and "valid_scale s"
  shows "inverse_matrix (transpose_matrix
            (dot (dot (Translation_to_matrix p) (Rotation_to_matrix r)) (Scale_to_matrix s)))
           = Inr (transpose_matrix (dot (Scale_to_matrix (Scale_reciprocal s))
                   (dot (transpose_matrix (Rotation_to_matrix r))
                      (Translation_to_matrix (Translation_neg p)))))"
  by (intro inverse_matrix_transpose inverse_matrix_dot inverse_position_rotation
      inverse_scale assms)

section \<open>What \<^verbatim>\<open>update\<close> returns\<close>

lemma Physical_update_Inr_iff:
  "Physical_update self = Inr self' \<longleftrightarrow>
     (\<exists>v n.
        inverse_matrix (dot (Translation_to_matrix (pos self)) (Rotation_to_matrix (rot self)))
          = Inr v
      \<and> inverse_matrix (transpose_matrix
           (dot (dot (Translation_to_matrix (pos self)) (Rotation_to_matrix (rot self)))
              (Scale_to_matrix (scale self)))) = Inr n
      \<and> self' = self\<lparr>model_matrix :=
           dot (dot (Translation_to_matrix (pos self)) (Rotation_to_matrix (rot self)))
             (Scale_to_matrix (scale self)),
           normal_matrix := n, view_matrix := v\<rparr>)"
  by (auto simp: Physical_update_def Let_def split: sum.splits)

lemma Physical_update_Inl_iff:
  "Physical_update self = Inl (e, self') \<longleftrightarrow>
     (inverse_matrix (dot (Translation_to_matrix (pos self)) (Rotation_to_matrix (rot self)))
        = Inl e
      \<and> self' = self\<lparr>model_matrix :=
           dot (Translation_to_matrix (pos self)) (Rotation_to_matrix (rot self))\<rparr>)
   \<or> (\<exists>v.
        inverse_matrix (dot (Translation_to_matrix (pos self)) (Rotation_to_matrix (rot self)))
          = Inr v
      \<and> inverse_matrix (transpose_matrix
           (dot (dot (Translation_to_matrix (pos self)) (Rotation_to_matrix (rot self)))
              (Scale_to_matrix (scale self)))) = Inl e
      \<and> self' = self\<lparr>model_matrix :=
           dot (dot (Translation_to_matrix (pos self)) (Rotation_to_matrix (rot self)))
             (Scale_to_matrix (scale self)),
           view_matrix := v\<rparr>)"
  by (auto simp: Physical_update_def Let_def split: sum.splits)

lemma Physical_update_valid:
  assumes "valid_rotation (rot self)" and "valid_scale (scale self)"
  shows "\<exists>self'. Physical_update self = Inr self'"
  using inverse_position_rotation [OF assms(1)] inverse_transpose_model [OF assms]
  by (simp add: Physical_update_Inr_iff)

lemma PhysicalNode_update_Inr_iff:
  "PhysicalNode_update n = Inr n' \<longleftrightarrow>
     (\<exists>self'. Physical_update (physical n) = Inr self'
        \<and> n' = (case parent n of
             Some p \<Rightarrow>
               PhysicalNode self'
                 (dot (model_matrix_global p) (model_matrix self'))
                 (dot (normal_matrix_global p) (normal_matrix self'))
                 (dot (normal_matrix_global p) (normal_matrix self'))
                 (parent n)
           | None \<Rightarrow>
               PhysicalNode self' (model_matrix self') (normal_matrix self')
                 (view_matrix self') (parent n)))"
  by (cases n) (auto split: sum.splits option.splits)

lemma PhysicalNode_update_valid:
  assumes "valid_rotation (rot (physical n))" and "valid_scale (scale (physical n))"
  shows "\<exists>n'. PhysicalNode_update n = Inr n'"
  using Physical_update_valid [OF assms] by (auto simp: PhysicalNode_update_Inr_iff)

lemma Physical_update_keeps:
  assumes "Physical_update self = Inr self'"
  shows "pos self' = pos self" and "rot self' = rot self" and "scale self' = scale self"
  using assms by (auto simp: Physical_update_Inr_iff)

lemma Physical_update_again:
  assumes "Physical_update self = Inr self'"
  shows "Physical_update self' = Inr self'"
  using assms by (auto simp: Physical_update_Inr_iff)

lemma PhysicalNode_update_keeps:
  assumes "PhysicalNode_update n = Inr n'"
  shows "pos (physical n') = pos (physical n)" and "rot (physical n') = rot (physical n)"
    and "scale (physical n') = scale (physical n)" and "parent n' = parent n"
  using assms
  by (auto simp: PhysicalNode_update_Inr_iff Physical_update_Inr_iff split: option.splits)

text \<open>The rules that evaluate \<^verbatim>\<open>update\<close> on a concrete node.\<close>

lemmas eval_simps =
  Physical_update_def Let_def inverse_matrix_def det3_def radians_def
  rotation_x_def rotation_y_def rotation_z_def zeros_def identity_matrix_def

lemma root_node_fresh: "PhysicalNode_update root_node = Inr root_node"
  by (simp add: root_node_def eval_simps)

section \<open>Supporting facts about the setters, the constructor and the examples\<close>

lemma rot_setter_cases:
  "rot_setter (Sequence [x, y, z]) self = Inr (self\<lparr>rot := RotationEulerDegrees x y z\<rparr>)"
  "rot_setter (Sequence [x, y, z, w]) self = Inr (self\<lparr>rot := RotationQuaternion x y z w\<rparr>)"
  "length xs \<noteq> 3 \<Longrightarrow> length xs \<noteq> 4 \<Longrightarrow> rot_setter (Sequence xs) self = Inr self"
  "rot_setter (Number a) self = Inl ValueError"
  by simp_all

lemma parented_view_matrix_global:
  assumes "parent n = Some p" and "PhysicalNode_update n = Inr n'"
  shows "view_matrix_global n' = normal_matrix_global n'"
  using assms by (auto simp: PhysicalNode_update_Inr_iff)

lemma degenerate_physical_reachable:
  "Physical_init other_arity [0, 0, 0] [0, 0, 0] 1 = Inr default_physical"
  "scale_setter (Number 0) default_physical = Inr (default_physical\<lparr>scale := ScaleUniform 0\<rparr>)"
  "pos_setter (Sequence [1, 0, 0]) (default_physical\<lparr>scale := ScaleUniform 0\<rparr>)
     = Inr degenerate_physical"
  by (simp_all add: Physical_init_def RotationEulerDegrees_init_def default_physical_def
      degenerate_physical_def eval_simps)

lemma upper_left_transposed_translation:
  "upper_left_3x3 (dot (transpose_matrix (Translation_to_matrix q)) m) = upper_left_3x3 m"
  by (cases q; cases m) simp

lemma Physical_init_valid:
  assumes "s \<noteq> 0"
  shows "\<exists>self. Physical_init other_arity [px, py, pz] [x, y, z] s = Inr self"
proof -
  let ?self = "\<lparr>rot = RotationEulerDegrees x y z, pos = Translation px py pz,
    scale = ScaleUniform s, model_matrix = zeros, normal_matrix = zeros,
    view_matrix = zeros\<rparr>"
  have "\<exists>self'. Physical_update ?self = Inr self'"
    using assms by (intro Physical_update_valid) simp_all
  then show ?thesis
    by (auto simp: Physical_init_def RotationEulerDegrees_init_def)
qed

text \<open>
  Whatever the length of \<^verbatim>\<open>rotation\<close> and whatever the class does with it, a constructed
  node holds an Euler-degrees rotation.
\<close>

lemma RotationEulerDegrees_init_Inr:
  assumes "RotationEulerDegrees_init other_arity xs = Inr r"
  shows "\<exists>a b c. r = RotationEulerDegrees a b c"
  using assms
  by (auto simp: RotationEulerDegrees_init_def split: if_splits sum.splits prod.splits)

lemma Physical_init_rot:
  assumes "Physical_init other_arity position rotation s = Inr self"
  shows "RotationEulerDegrees_init other_arity rotation = Inr (rot self)"
  using assms
  by (auto simp: Physical_init_def Physical_update_Inr_iff split: sum.splits prod.splits)

lemma Physical_init_Inr_iff:
  "Physical_init other_arity position rotation s = Inr self \<longleftrightarrow>
     (\<exists>r p. RotationEulerDegrees_init other_arity rotation = Inr r
        \<and> Translation_init position = Inr p
        \<and> Physical_update
             \<lparr>rot = r, pos = p, scale = ScaleUniform s,
              model_matrix = zeros, normal_matrix = zeros, view_matrix = zeros\<rparr> = Inr self)"
  by (auto simp: Physical_init_def split: sum.splits prod.splits)

section \<open>The claims of the specification\<close>

text \<open>
  Claim C1. The claim asks that, for a node with a parent, \<open>view_matrix_global\<close> be the
  inverse of \<open>model_matrix_global\<close>. \<^verbatim>\<open>PhysicalNode.update\<close> assigns it the same product as
  \<open>normal_matrix_global\<close>. At \<open>child_node\<close>, a default node (scale 1) below a root at
  position (1, 0, 0) whose matrices are fresh, the update leaves \<open>model_matrix_global\<close>
  as the translation by (1, 0, 0), whose inverse is the translation by (-1, 0, 0), and
  \<open>view_matrix_global\<close> as the parent's normal matrix, which has the -1 in the bottom
  row instead of the last column.
\<close>

theorem view_matrix_global_repeats_normal:
  "PhysicalNode_update root_node = Inr root_node
   \<and> PhysicalNode_update child_node = Inr child_node_updated
   \<and> model_matrix_global child_node_updated = Mat4 1 0 0 1  0 1 0 0  0 0 1 0  0 0 0 1
   \<and> inverse_matrix (model_matrix_global child_node_updated)
     = Inr (Mat4 1 0 0 (- 1)  0 1 0 0  0 0 1 0  0 0 0 1)
   \<and> view_matrix_global child_node_updated = Mat4 1 0 0 0  0 1 0 0  0 0 1 0  (- 1) 0 0 1
   \<and> view_matrix_global child_node_updated = normal_matrix_global child_node_updated
   \<and> inverse_matrix (model_matrix_global child_node_updated)
     \<noteq> Inr (view_matrix_global child_node_updated)"
  by (simp add: child_node_def child_node_updated_def root_node_def eval_simps)


text \<open>
  Claim C2. After a successful \<^verbatim>\<open>update\<close> the local \<open>view_matrix\<close> is the inverse of
  \<^verbatim>\<open>pos.to_matrix()\<close> times \<^verbatim>\<open>rot.to_matrix()\<close>: it is what \<open>inverse_matrix\<close> returns for
  that product, and it multiplies with the product to the identity on both sides. It
  does not depend on the scale: any object with the same position and rotation gets the
  same \<open>view_matrix\<close>. The update succeeds whenever rotation and scale are valid.
\<close>

theorem view_matrix_inverse_of_position_rotation:
  "(\<forall>self'. Physical_update self = Inr self' \<longrightarrow>
      inverse_matrix (dot (Translation_to_matrix (pos self)) (Rotation_to_matrix (rot self)))
        = Inr (view_matrix self')
    \<and> dot (dot (Translation_to_matrix (pos self)) (Rotation_to_matrix (rot self)))
        (view_matrix self') = identity_matrix
    \<and> dot (view_matrix self')
        (dot (Translation_to_matrix (pos self)) (Rotation_to_matrix (rot self)))
        = identity_matrix
    \<and> (\<forall>other other'.
          pos other = pos self \<and> rot other = rot self \<and> Physical_update other = Inr other'
          \<longrightarrow> view_matrix other' = view_matrix self'))
   \<and> (valid_rotation (rot self) \<and> valid_scale (scale self) \<longrightarrow>
        (\<exists>self'. Physical_update self = Inr self'))"
proof (intro conjI allI impI)
  fix self'
  assume u: "Physical_update self = Inr self'"
  then show v: "inverse_matrix
       (dot (Translation_to_matrix (pos self)) (Rotation_to_matrix (rot self)))
      = Inr (view_matrix self')"
    by (auto simp: Physical_update_Inr_iff)
  from v show "dot (dot (Translation_to_matrix (pos self)) (Rotation_to_matrix (rot self)))
      (view_matrix self') = identity_matrix"
    by (rule inverse_matrix_right)
  from v show "dot (view_matrix self')
      (dot (Translation_to_matrix (pos self)) (Rotation_to_matrix (rot self)))
      = identity_matrix"
    by (rule inverse_matrix_left)
  fix other other'
  assume "pos other = pos self \<and> rot other = rot self \<and> Physical_update other = Inr other'"
  with v show "view_matrix other' = view_matrix self'"
    by (auto simp: Physical_update_Inr_iff)
next
  assume "valid_rotation (rot self) \<and> valid_scale (scale self)"
  then show "\<exists>self'. Physical_update self = Inr self'"
    by (simp add: Physical_update_valid)
qed

theorem view_matrix_inverse_of_position_rotation_witness:
  "valid_rotation (rot example_physical) \<and> valid_scale (scale example_physical)
   \<and> (\<exists>self'. Physical_update example_physical = Inr self'
        \<and> inverse_matrix (dot (Translation_to_matrix (pos example_physical))
              (Rotation_to_matrix (rot example_physical))) = Inr (view_matrix self')
        \<and> view_matrix self' = Mat4 0 1 0 (- 2) (- 1) 0 0 1 0 0 1 (- 3) 0 0 0 1
        \<and> (\<exists>other'. Physical_update (example_physical\<lparr>scale := ScaleXYZ 1 1 5\<rparr>) = Inr other'
              \<and> view_matrix other' = view_matrix self'))"
proof -
  have v: "valid_rotation (rot example_physical) \<and> valid_scale (scale example_physical)"
    by (simp add: example_physical_def)
  have o: "\<exists>other'. Physical_update (example_physical\<lparr>scale := ScaleXYZ 1 1 5\<rparr>) = Inr other'"
    by (simp add: example_physical_def eval_simps)
  have m: "view_matrix self' = Mat4 0 1 0 (- 2) (- 1) 0 0 1 0 0 1 (- 3) 0 0 0 1"
    if "Physical_update example_physical = Inr self'" for self'
    using that by (auto simp: example_physical_def eval_simps)
  have s: "pos (example_physical\<lparr>scale := ScaleXYZ 1 1 5\<rparr>) = pos example_physical
      \<and> rot (example_physical\<lparr>scale := ScaleXYZ 1 1 5\<rparr>) = rot example_physical"
    by simp
  from view_matrix_inverse_of_position_rotation [of example_physical] v o m s
  show ?thesis
    by metis
qed

text \<open>
  Claim C3. For a node with a parent, a successful \<^verbatim>\<open>update\<close> leaves
  \<open>model_matrix_global\<close> equal to the parent's \<open>model_matrix_global\<close> times the node's new
  local \<open>model_matrix\<close>, and \<open>normal_matrix_global\<close> equal to the parent's
  \<open>normal_matrix_global\<close> times the node's new local \<open>normal_matrix\<close>; the parent is not
  touched. The update succeeds whenever rotation and scale are valid.
\<close>

theorem parented_global_model_and_normal:
  assumes "parent n = Some p"
  shows "(\<forall>n'. PhysicalNode_update n = Inr n' \<longrightarrow>
            model_matrix_global n'
              = dot (model_matrix_global p) (model_matrix (physical n'))
          \<and> normal_matrix_global n'
              = dot (normal_matrix_global p) (normal_matrix (physical n'))
          \<and> parent n' = Some p)
       \<and> (valid_rotation (rot (physical n)) \<and> valid_scale (scale (physical n)) \<longrightarrow>
            (\<exists>n'. PhysicalNode_update n = Inr n'))"
  using assms PhysicalNode_update_valid [of n]
  by (auto simp: PhysicalNode_update_Inr_iff)

theorem parented_global_model_and_normal_witness:
  "parent example_child = Some root_node
   \<and> valid_rotation (rot (physical example_child))
   \<and> valid_scale (scale (physical example_child))
   \<and> (\<exists>n'. PhysicalNode_update example_child = Inr n'
        \<and> model_matrix_global n'
            = dot (model_matrix_global root_node) (model_matrix (physical n'))
        \<and> normal_matrix_global n'
            = dot (normal_matrix_global root_node) (normal_matrix (physical n'))
        \<and> model_matrix_global n' = Mat4 0 (- 2) 0 2 2 0 0 2 0 0 2 3 0 0 0 1)"
proof -
  have p: "parent example_child = Some root_node"
    by (simp add: example_child_def)
  have v: "valid_rotation (rot (physical example_child))
      \<and> valid_scale (scale (physical example_child))"
    by (simp add: example_child_def example_physical_def)
  have m: "model_matrix_global n' = Mat4 0 (- 2) 0 2 2 0 0 2 0 0 2 3 0 0 0 1"
    if "PhysicalNode_update example_child = Inr n'" for n'
    using that
    by (auto simp: example_child_def example_physical_def root_node_def eval_simps)
  from parented_global_model_and_normal [OF p] p v m show ?thesis
    by blast
qed

text \<open>
  Claim C4. For a node without parent, a successful \<^verbatim>\<open>update\<close> leaves each of the three
  global matrices equal to its local counterpart, whatever position, rotation and scale
  are. The update succeeds whenever rotation and scale are valid.
\<close>

theorem root_global_equals_local:
  assumes "parent n = None"
  shows "(\<forall>n'. PhysicalNode_update n = Inr n' \<longrightarrow>
            model_matrix_global n' = model_matrix (physical n')
          \<and> normal_matrix_global n' = normal_matrix (physical n')
          \<and> view_matrix_global n' = view_matrix (physical n'))
       \<and> (valid_rotation (rot (physical n)) \<and> valid_scale (scale (physical n)) \<longrightarrow>
            (\<exists>n'. PhysicalNode_update n = Inr n'))"
  using assms PhysicalNode_update_valid [of n]
  by (auto simp: PhysicalNode_update_Inr_iff)

theorem root_global_equals_local_witness:
  "parent example_root = None
   \<and> valid_rotation (rot (physical example_root))
   \<and> valid_scale (scale (physical example_root))
   \<and> (\<exists>n'. PhysicalNode_update example_root = Inr n'
        \<and> model_matrix_global n' = model_matrix (physical n')
        \<and> normal_matrix_global n' = normal_matrix (physical n')
        \<and> view_matrix_global n' = view_matrix (physical n')
        \<and> view_matrix_global n' = Mat4 0 1 0 (- 2) (- 1) 0 0 1 0 0 1 (- 3) 0 0 0 1)"
proof -
  have p: "parent example_root = None"
    by (simp add: example_root_def)
  have v: "valid_rotation (rot (physical example_root))
      \<and> valid_scale (scale (physical example_root))"
    by (simp add: example_root_def example_physical_def)
  have m: "view_matrix_global n' = Mat4 0 1 0 (- 2) (- 1) 0 0 1 0 0 1 (- 3) 0 0 0 1"
    if "PhysicalNode_update example_root = Inr n'" for n'
    using that
    by (auto simp: example_root_def example_physical_def eval_simps)
  from root_global_equals_local [OF p] p v m show ?thesis
    by blast
qed

text \<open>
  Claim C5. The claim asks that a sequence of a length other than 3 or 4 assigned to
  \<^verbatim>\<open>rot\<close> raise. The setter only raises for a value that is not iterable: a sequence of
  two floats matches neither length test, and the setter returns with the rotation as
  it was.
\<close>

theorem rot_setter_wrong_length_silent:
  "rot_setter (Sequence [1, 2]) self = Inr self"
  by simp

text \<open>
  Claim C6, as stated, fails. \<open>degenerate_physical\<close> is a default object after
  \<^verbatim>\<open>scale = 0\<close> and \<^verbatim>\<open>pos = (1, 0, 0)\<close>; all its matrices are the identity. Its \<^verbatim>\<open>update\<close>
  raises \<^verbatim>\<open>SingularMatrixError\<close> at the inversion for the normal matrix, when
  \<open>model_matrix\<close> and \<open>view_matrix\<close> have already been overwritten.
\<close>

theorem update_atomic_counterexample:
  "Physical_update degenerate_physical
     = Inl (SingularMatrixError,
         degenerate_physical
           \<lparr>model_matrix := Mat4 0 0 0 1  0 0 0 0  0 0 0 0  0 0 0 1,
            view_matrix := Mat4 1 0 0 (- 1)  0 1 0 0  0 0 1 0  0 0 0 1\<rparr>)
   \<and> model_matrix degenerate_physical \<noteq> Mat4 0 0 0 1  0 0 0 0  0 0 0 0  0 0 0 1
   \<and> view_matrix degenerate_physical \<noteq> Mat4 1 0 0 (- 1)  0 1 0 0  0 0 1 0  0 0 0 1"
  by (simp add: degenerate_physical_def eval_simps)

text \<open>
  Claim C6, amended. \<^verbatim>\<open>update\<close> has three outcomes. Either it returns with all three
  matrices recomputed. Or the inversion for the view matrix raises
  \<^verbatim>\<open>SingularMatrixError\<close>: then \<open>model_matrix\<close> is already position times rotation, and
  \<open>view_matrix\<close> and \<open>normal_matrix\<close> have their old values. Or the inversion for the
  normal matrix raises \<^verbatim>\<open>SingularMatrixError\<close>: then \<open>model_matrix\<close> and \<open>view_matrix\<close> are
  already recomputed and only \<open>normal_matrix\<close> has its old value. Position, rotation
  and scale are never changed.
\<close>

theorem update_outcomes:
  "(\<exists>self'. Physical_update self = Inr self'
      \<and> model_matrix self'
          = dot (dot (Translation_to_matrix (pos self)) (Rotation_to_matrix (rot self)))
              (Scale_to_matrix (scale self))
      \<and> inverse_matrix (dot (Translation_to_matrix (pos self)) (Rotation_to_matrix (rot self)))
          = Inr (view_matrix self')
      \<and> inverse_matrix (transpose_matrix (model_matrix self')) = Inr (normal_matrix self')
      \<and> pos self' = pos self \<and> rot self' = rot self \<and> scale self' = scale self)
   \<or> (\<exists>self'. Physical_update self = Inl (SingularMatrixError, self')
      \<and> inverse_matrix (dot (Translation_to_matrix (pos self)) (Rotation_to_matrix (rot self)))
          = Inl SingularMatrixError
      \<and> model_matrix self'
          = dot (Translation_to_matrix (pos self)) (Rotation_to_matrix (rot self))
      \<and> view_matrix self' = view_matrix self
      \<and> normal_matrix self' = normal_matrix self
      \<and> pos self' = pos self \<and> rot self' = rot self \<and> scale self' = scale self)
   \<or> (\<exists>self'. Physical_update self = Inl (SingularMatrixError, self')
      \<and> model_matrix self'
          = dot (dot (Translation_to_matrix (pos self)) (Rotation_to_matrix (rot self)))
              (Scale_to_matrix (scale self))
      \<and> inverse_matrix (dot (Translation_to_matrix (pos self)) (Rotation_to_matrix (rot self)))
          = Inr (view_matrix self')
      \<and> inverse_matrix (transpose_matrix (model_matrix self')) = Inl SingularMatrixError
      \<and> normal_matrix self' = normal_matrix self
      \<and> pos self' = pos self \<and> rot self' = rot self \<and> scale self' = scale self)"
proof (cases "inverse_matrix
    (dot (Translation_to_matrix (pos self)) (Rotation_to_matrix (rot self)))")
  case (Inl e)
  then have "e = SingularMatrixError"
    by (rule inverse_matrix_error)
  with Inl show ?thesis
    by (simp add: Physical_update_def Let_def)
next
  case v: (Inr v)
  show ?thesis
  proof (cases "inverse_matrix (transpose_matrix
      (dot (dot (Translation_to_matrix (pos self)) (Rotation_to_matrix (rot self)))
         (Scale_to_matrix (scale self))))")
    case (Inl e)
    then have "e = SingularMatrixError"
      by (rule inverse_matrix_error)
    with v Inl show ?thesis
      by (simp add: Physical_update_def Let_def)
  next
    case (Inr n)
    with v show ?thesis
      by (simp add: Physical_update_def Let_def)
  qed
qed

theorem update_outcomes_witness:
  "(\<exists>self'. Physical_update example_physical = Inr self'
      \<and> model_matrix self' = Mat4 0 (- 2) 0 1  2 0 0 2  0 0 2 3  0 0 0 1)
   \<and> (\<exists>self'. Physical_update degenerate_physical = Inl (SingularMatrixError, self')
      \<and> model_matrix self' = Mat4 0 0 0 1  0 0 0 0  0 0 0 0  0 0 0 1
      \<and> inverse_matrix (dot (Translation_to_matrix (pos degenerate_physical))
            (Rotation_to_matrix (rot degenerate_physical))) = Inr (view_matrix self')
      \<and> normal_matrix self' = normal_matrix degenerate_physical)"
proof -
  have a: "Physical_update example_physical \<noteq> Inl (e, s)" for e s
    by (simp add: example_physical_def eval_simps)
  have b: "model_matrix s = Mat4 0 (- 2) 0 1  2 0 0 2  0 0 2 3  0 0 0 1"
    if "Physical_update example_physical = Inr s" for s
    using that by (auto simp: example_physical_def eval_simps)
  have c: "Physical_update degenerate_physical \<noteq> Inr s" for s
    by (simp add: degenerate_physical_def eval_simps)
  have d: "model_matrix s = Mat4 0 0 0 1  0 0 0 0  0 0 0 0  0 0 0 1"
    if "Physical_update degenerate_physical = Inl (e, s)" for e s
    using that by (auto simp: degenerate_physical_def eval_simps)
  have e: "inverse_matrix (dot (Translation_to_matrix (pos degenerate_physical))
            (Rotation_to_matrix (rot degenerate_physical))) \<noteq> Inl SingularMatrixError"
    by (simp add: degenerate_physical_def eval_simps)
  from update_outcomes [of example_physical] a b
  have 1: "\<exists>self'. Physical_update example_physical = Inr self'
      \<and> model_matrix self' = Mat4 0 (- 2) 0 1  2 0 0 2  0 0 2 3  0 0 0 1"
    by blast
  from update_outcomes [of degenerate_physical] c d e
  have 2: "\<exists>self'. Physical_update degenerate_physical = Inl (SingularMatrixError, self')
      \<and> model_matrix self' = Mat4 0 0 0 1  0 0 0 0  0 0 0 0  0 0 0 1
      \<and> inverse_matrix (dot (Translation_to_matrix (pos degenerate_physical))
            (Rotation_to_matrix (rot degenerate_physical))) = Inr (view_matrix self')
      \<and> normal_matrix self' = normal_matrix degenerate_physical"
    by blast
  from 1 2 show ?thesis
    by (rule conjI)
qed

text \<open>
  Claim C7. Assigning to \<^verbatim>\<open>pos\<close>, \<^verbatim>\<open>rot\<close> or \<^verbatim>\<open>scale\<close> changes at most the attribute
  assigned to: the three matrices and the other two attributes stay as they are,
  whatever is assigned. A triple assigned to \<^verbatim>\<open>pos\<close> or \<^verbatim>\<open>rot\<close> and a float assigned to
  \<^verbatim>\<open>scale\<close> are stored.
\<close>

theorem setters_leave_matrices:
  "(\<forall>self'. pos_setter c\<^sub>p self = Inr self' \<longrightarrow>
      rot self' = rot self \<and> scale self' = scale self
    \<and> model_matrix self' = model_matrix self
    \<and> normal_matrix self' = normal_matrix self
    \<and> view_matrix self' = view_matrix self)
   \<and> (\<forall>self'. rot_setter c\<^sub>r self = Inr self' \<longrightarrow>
      pos self' = pos self \<and> scale self' = scale self
    \<and> model_matrix self' = model_matrix self
    \<and> normal_matrix self' = normal_matrix self
    \<and> view_matrix self' = view_matrix self)
   \<and> (\<forall>self'. scale_setter c\<^sub>s self = Inr self' \<longrightarrow>
      pos self' = pos self \<and> rot self' = rot self
    \<and> model_matrix self' = model_matrix self
    \<and> normal_matrix self' = normal_matrix self
    \<and> view_matrix self' = view_matrix self)
   \<and> pos_setter (Sequence [x, y, z]) self = Inr (self\<lparr>pos := Translation x y z\<rparr>)
   \<and> rot_setter (Sequence [x, y, z]) self = Inr (self\<lparr>rot := RotationEulerDegrees x y z\<rparr>)
   \<and> scale_setter (Number x) self = Inr (self\<lparr>scale := ScaleUniform x\<rparr>)"
proof (intro conjI allI impI)
  fix self'
  assume "pos_setter c\<^sub>p self = Inr self'"
  then have "\<exists>t. self' = self\<lparr>pos := t\<rparr>"
    by (cases c\<^sub>p) (auto split: sum.splits)
  then show "rot self' = rot self" "scale self' = scale self"
    "model_matrix self' = model_matrix self" "normal_matrix self' = normal_matrix self"
    "view_matrix self' = view_matrix self"
    by auto
next
  fix self'
  assume "rot_setter c\<^sub>r self = Inr self'"
  then have "self' = self \<or> (\<exists>r. self' = self\<lparr>rot := r\<rparr>)"
    by (cases c\<^sub>r) (auto split: sum.splits if_splits)
  then show "pos self' = pos self" "scale self' = scale self"
    "model_matrix self' = model_matrix self" "normal_matrix self' = normal_matrix self"
    "view_matrix self' = view_matrix self"
    by auto
next
  fix self'
  assume "scale_setter c\<^sub>s self = Inr self'"
  then have "\<exists>s. self' = self\<lparr>scale := s\<rparr>"
    by (cases c\<^sub>s) (auto split: sum.splits)
  then show "pos self' = pos self" "rot self' = rot self"
    "model_matrix self' = model_matrix self" "normal_matrix self' = normal_matrix self"
    "view_matrix self' = view_matrix self"
    by auto
qed simp_all

theorem setters_leave_matrices_witness:
  "pos_setter (Sequence [4, 5, 6]) default_physical
     = Inr (default_physical\<lparr>pos := Translation 4 5 6\<rparr>)
   \<and> model_matrix (default_physical\<lparr>pos := Translation 4 5 6\<rparr>) = identity_matrix
   \<and> rot_setter (Sequence [0, 0, 0, 1]) default_physical
     = Inr (default_physical\<lparr>rot := RotationQuaternion 0 0 0 1\<rparr>)
   \<and> view_matrix (default_physical\<lparr>rot := RotationQuaternion 0 0 0 1\<rparr>) = identity_matrix
   \<and> scale_setter (Sequence [1, 2, 3]) default_physical
     = Inr (default_physical\<lparr>scale := ScaleXYZ 1 2 3\<rparr>)
   \<and> normal_matrix (default_physical\<lparr>scale := ScaleXYZ 1 2 3\<rparr>) = identity_matrix"
  using setters_leave_matrices [of "Sequence [4, 5, 6]" default_physical
      "Sequence [0, 0, 0, 1]" "Sequence [1, 2, 3]"]
  by (simp add: default_physical_def)

text \<open>
  Claim C8, as stated, fails for four values: the constructor passes its \<^verbatim>\<open>rotation\<close>
  argument to \<^verbatim>\<open>RotationEulerDegrees\<close> whatever its length. Whatever that class does
  with the four values (0, 0, 0, 1), no node is constructed that holds them as a
  quaternion.
\<close>

theorem init_rotation_counterexample:
  "\<not> (\<exists>other_arity self.
        Physical_init other_arity [0, 0, 0] [0, 0, 0, 1] 1 = Inr self
      \<and> rot self = RotationQuaternion 0 0 0 1)"
proof
  assume "\<exists>other_arity self.
        Physical_init other_arity [0, 0, 0] [0, 0, 0, 1] 1 = Inr self
      \<and> rot self = RotationQuaternion 0 0 0 1"
  then obtain other_arity self
    where i: "Physical_init other_arity [0, 0, 0] [0, 0, 0, 1] 1 = Inr self"
      and q: "rot self = RotationQuaternion 0 0 0 1"
    by blast
  from i have "RotationEulerDegrees_init other_arity [0, 0, 0, 1] = Inr (rot self)"
    by (rule Physical_init_rot)
  then have "\<exists>a b c. rot self = RotationEulerDegrees a b c"
    by (rule RotationEulerDegrees_init_Inr)
  with q show False
    by simp
qed

text \<open>
  Claim C8, amended. A node constructed with a rotation of three values holds, in \<^verbatim>\<open>rot\<close>,
  an Euler-degrees rotation with these three values, and the construction succeeds for
  any position of three values and any scale other than 0. A node constructed with a
  rotation of four values, or of any other length, never holds a quaternion: if the
  construction succeeds at all, \<^verbatim>\<open>rot\<close> is an Euler-degrees rotation. A quaternion with
  the same four values is what \<^verbatim>\<open>rot\<close> holds after a sequence of four values has been
  assigned to it. The instance below the theorem takes for \<open>other_arity\<close> a class that
  keeps the first three of its values: with the four values (0, 0, 90, 1) the node is
  constructed and holds an Euler-degrees rotation.
\<close>

theorem init_rotation_round_trip:
  "(\<forall>self. Physical_init other_arity position [x, y, z] s = Inr self \<longrightarrow>
      rot self = RotationEulerDegrees x y z)
   \<and> (length position = 3 \<and> s \<noteq> 0 \<longrightarrow>
        (\<exists>self. Physical_init other_arity position [x, y, z] s = Inr self))
   \<and> (\<forall>rotation self. Physical_init other_arity position rotation s = Inr self \<longrightarrow>
        (\<exists>a b c. rot self = RotationEulerDegrees a b c))
   \<and> rot_setter (Sequence [x, y, z, w]) self\<^sub>0
       = Inr (self\<^sub>0\<lparr>rot := RotationQuaternion x y z w\<rparr>)
   \<and> rot (self\<^sub>0\<lparr>rot := RotationQuaternion x y z w\<rparr>) = RotationQuaternion x y z w"
proof (intro conjI allI impI)
  fix self
  assume "Physical_init other_arity position [x, y, z] s = Inr self"
  then have "RotationEulerDegrees_init other_arity [x, y, z] = Inr (rot self)"
    by (rule Physical_init_rot)
  then show "rot self = RotationEulerDegrees x y z"
    by (simp add: RotationEulerDegrees_init_def)
next
  assume a: "length position = 3 \<and> s \<noteq> 0"
  then obtain px py pz where "position = [px, py, pz]"
    by (auto simp: length_Suc_conv numeral_3_eq_3)
  with a show "\<exists>self. Physical_init other_arity position [x, y, z] s = Inr self"
    by (simp add: Physical_init_valid)
next
  fix rotation self
  assume "Physical_init other_arity position rotation s = Inr self"
  then have "RotationEulerDegrees_init other_arity rotation = Inr (rot self)"
    by (rule Physical_init_rot)
  then show "\<exists>a b c. rot self = RotationEulerDegrees a b c"
    by (rule RotationEulerDegrees_init_Inr)
qed simp_all

theorem init_rotation_round_trip_witness:
  "length [1, 2, 3 :: real] = 3 \<and> (2 :: real) \<noteq> 0
   \<and> (\<exists>self. Physical_init (\<lambda>xs. Inr (xs ! 0, xs ! 1, xs ! 2)) [1, 2, 3] [0, 0, 90] 2
          = Inr self
        \<and> rot self = RotationEulerDegrees 0 0 90)
   \<and> (\<exists>self. Physical_init (\<lambda>xs. Inr (xs ! 0, xs ! 1, xs ! 2)) [1, 2, 3] [0, 0, 90, 1] 2
          = Inr self
        \<and> (\<exists>a b c. rot self = RotationEulerDegrees a b c)
        \<and> rot self \<noteq> RotationQuaternion 0 0 90 1)
   \<and> rot_setter (Sequence [0, 0, 90, 1]) default_physical
       = Inr (default_physical\<lparr>rot := RotationQuaternion 0 0 90 1\<rparr>)"
proof -
  let ?other = "\<lambda>xs :: real list. Inr (xs ! 0, xs ! 1, xs ! 2) :: error + real \<times> real \<times> real"
  note t = init_rotation_round_trip [of ?other "[1, 2, 3]" 0 0 90 2 1 default_physical]
  have h: "length [1, 2, 3 :: real] = 3 \<and> (2 :: real) \<noteq> 0"
    by simp
  from t have a: "length [1, 2, 3 :: real] = 3 \<and> (2 :: real) \<noteq> 0 \<longrightarrow>
      (\<exists>self. Physical_init ?other [1, 2, 3] [0, 0, 90] 2 = Inr self)"
    by (rule conjunct2 [THEN conjunct1])
  from t have b: "\<forall>self. Physical_init ?other [1, 2, 3] [0, 0, 90] 2 = Inr self \<longrightarrow>
      rot self = RotationEulerDegrees 0 0 90"
    by (rule conjunct1)
  from a b h have 1: "\<exists>self. Physical_init ?other [1, 2, 3] [0, 0, 90] 2 = Inr self
        \<and> rot self = RotationEulerDegrees 0 0 90"
    by blast
  have r: "RotationEulerDegrees_init ?other [0, 0, 90, 1] = Inr (RotationEulerDegrees 0 0 90)"
    by (simp add: RotationEulerDegrees_init_def)
  have u: "\<exists>self. Physical_update
      \<lparr>rot = RotationEulerDegrees 0 0 90, pos = Translation 1 2 3, scale = ScaleUniform 2,
       model_matrix = zeros, normal_matrix = zeros, view_matrix = zeros\<rparr> = Inr self"
    by (intro Physical_update_valid) simp_all
  have e: "\<exists>self. Physical_init ?other [1, 2, 3] [0, 0, 90, 1] 2 = Inr self"
    unfolding Physical_init_Inr_iff using r u by simp
  from t have c: "\<forall>rotation self.
      Physical_init ?other [1, 2, 3] rotation 2 = Inr self \<longrightarrow>
      (\<exists>a b c. rot self = RotationEulerDegrees a b c)"
    by (rule conjunct2 [THEN conjunct2, THEN conjunct1])
  from e obtain self where s: "Physical_init ?other [1, 2, 3] [0, 0, 90, 1] 2 = Inr self"
    by blast
  with c have "\<exists>a b c. rot self = RotationEulerDegrees a b c"
    by blast
  then have "(\<exists>a b c. rot self = RotationEulerDegrees a b c)
      \<and> rot self \<noteq> RotationQuaternion 0 0 90 1"
    by auto
  with s have 2: "\<exists>self. Physical_init ?other [1, 2, 3] [0, 0, 90, 1] 2 = Inr self
        \<and> (\<exists>a b c. rot self = RotationEulerDegrees a b c)
        \<and> rot self \<noteq> RotationQuaternion 0 0 90 1"
    by blast
  from t have 3: "rot_setter (Sequence [0, 0, 90, 1]) default_physical
       = Inr (default_physical\<lparr>rot := RotationQuaternion 0 0 90 1\<rparr>)"
    by (rule conjunct2 [THEN conjunct2, THEN conjunct2, THEN conjunct1])
  have l: "length [1, 2, 3 :: real] = 3" and n: "(2 :: real) \<noteq> 0"
    by simp_all
  show ?thesis
    by (intro conjI) (rule l, rule n, rule 1, rule 2, rule 3)
qed

text \<open>
  Claim C9, as stated, fails in its second half. \<open>offset_physical\<close> has scale 1 and the
  rotation (0, 0, 0), whose matrix is the identity, at position (1, 0, 0): its
  \<open>normal_matrix\<close> after \<^verbatim>\<open>update\<close> is the inverse transpose of the translation, with -1
  in the bottom row.
\<close>

theorem normal_matrix_counterexample:
  "Physical_update offset_physical
     = Inr (offset_physical
         \<lparr>model_matrix := Mat4 1 0 0 1  0 1 0 0  0 0 1 0  0 0 0 1,
          normal_matrix := Mat4 1 0 0 0  0 1 0 0  0 0 1 0  (- 1) 0 0 1,
          view_matrix := Mat4 1 0 0 (- 1)  0 1 0 0  0 0 1 0  0 0 0 1\<rparr>)
   \<and> Scale_to_matrix (scale offset_physical) = identity_matrix
   \<and> Rotation_to_matrix (rot offset_physical) = Mat4 1 0 0 0  0 1 0 0  0 0 1 0  0 0 0 1
   \<and> normal_matrix (offset_physical
         \<lparr>model_matrix := Mat4 1 0 0 1  0 1 0 0  0 0 1 0  0 0 0 1,
          normal_matrix := Mat4 1 0 0 0  0 1 0 0  0 0 1 0  (- 1) 0 0 1,
          view_matrix := Mat4 1 0 0 (- 1)  0 1 0 0  0 0 1 0  0 0 0 1\<rparr>)
     \<noteq> Rotation_to_matrix (rot offset_physical)"
  by (simp add: offset_physical_def eval_simps)

text \<open>
  Claim C9, amended. A scale with a zero factor makes \<^verbatim>\<open>update\<close> fail with
  \<^verbatim>\<open>SingularMatrixError\<close>; with a valid rotation it fails when the normal matrix is
  computed, after \<open>model_matrix\<close> and \<open>view_matrix\<close> have been assigned. With the identity
  scale and a valid rotation, \<^verbatim>\<open>update\<close> succeeds, the upper left 3x3 block of
  \<open>normal_matrix\<close> is that of the rotation matrix, and \<open>normal_matrix\<close> is the rotation
  matrix itself when the position is the origin.
\<close>

theorem degenerate_and_identity_scale:
  "(\<not> valid_scale (scale self) \<longrightarrow>
      (\<exists>self'. Physical_update self = Inl (SingularMatrixError, self')))
   \<and> (\<not> valid_scale (scale self) \<and> valid_rotation (rot self) \<longrightarrow>
      (\<exists>self'. Physical_update self = Inl (SingularMatrixError, self')
         \<and> inverse_matrix
              (dot (Translation_to_matrix (pos self)) (Rotation_to_matrix (rot self)))
            = Inr (view_matrix self')
         \<and> inverse_matrix (transpose_matrix (model_matrix self'))
            = Inl SingularMatrixError
         \<and> normal_matrix self' = normal_matrix self))
   \<and> (Scale_to_matrix (scale self) = identity_matrix \<and> valid_rotation (rot self) \<longrightarrow>
      (\<exists>self'. Physical_update self = Inr self'
         \<and> upper_left_3x3 (normal_matrix self')
            = upper_left_3x3 (Rotation_to_matrix (rot self))
         \<and> (pos self = Translation 0 0 0 \<longrightarrow>
              normal_matrix self' = Rotation_to_matrix (rot self))))"
proof (intro conjI impI)
  let ?tr = "dot (Translation_to_matrix (pos self)) (Rotation_to_matrix (rot self))"
  assume s: "\<not> valid_scale (scale self)"
  have n: "inverse_matrix (transpose_matrix (dot ?tr (Scale_to_matrix (scale self))))
      = Inl SingularMatrixError"
    using s by (rule inverse_singular_scale)
  show "\<exists>self'. Physical_update self = Inl (SingularMatrixError, self')"
  proof (cases "inverse_matrix ?tr")
    case (Inl e)
    then have "e = SingularMatrixError"
      by (rule inverse_matrix_error)
    with Inl show ?thesis
      by (simp add: Physical_update_def Let_def)
  next
    case (Inr v)
    with n show ?thesis
      by (simp add: Physical_update_def Let_def)
  qed
next
  let ?tr = "dot (Translation_to_matrix (pos self)) (Rotation_to_matrix (rot self))"
  assume a: "\<not> valid_scale (scale self) \<and> valid_rotation (rot self)"
  have n: "inverse_matrix (transpose_matrix (dot ?tr (Scale_to_matrix (scale self))))
      = Inl SingularMatrixError"
    using a by (intro inverse_singular_scale) simp
  have v: "inverse_matrix ?tr
      = Inr (dot (transpose_matrix (Rotation_to_matrix (rot self)))
              (Translation_to_matrix (Translation_neg (pos self))))"
    using a by (intro inverse_position_rotation) simp
  show "\<exists>self'. Physical_update self = Inl (SingularMatrixError, self')
         \<and> inverse_matrix ?tr = Inr (view_matrix self')
         \<and> inverse_matrix (transpose_matrix (model_matrix self'))
            = Inl SingularMatrixError
         \<and> normal_matrix self' = normal_matrix self"
    using n v by (simp add: Physical_update_def Let_def)
next
  let ?r = "Rotation_to_matrix (rot self)"
  let ?tr = "dot (Translation_to_matrix (pos self)) ?r"
  let ?q = "Translation_to_matrix (Translation_neg (pos self))"
  assume a: "Scale_to_matrix (scale self) = identity_matrix \<and> valid_rotation (rot self)"
  have v: "inverse_matrix ?tr = Inr (dot (transpose_matrix ?r) ?q)"
    using a by (intro inverse_position_rotation) simp
  have t: "transpose_matrix (dot (transpose_matrix ?r) ?q) = dot (transpose_matrix ?q) ?r"
    by (simp add: transpose_dot transpose_transpose)
  have "inverse_matrix (transpose_matrix ?tr)
      = Inr (transpose_matrix (dot (transpose_matrix ?r) ?q))"
    using v by (rule inverse_matrix_transpose)
  then have n: "inverse_matrix (transpose_matrix ?tr) = Inr (dot (transpose_matrix ?q) ?r)"
    by (simp only: t)
  have u: "Physical_update self
      = Inr (self\<lparr>model_matrix := ?tr, normal_matrix := dot (transpose_matrix ?q) ?r,
               view_matrix := dot (transpose_matrix ?r) ?q\<rparr>)"
    using a v n by (simp add: Physical_update_Inr_iff dot_identity_right)
  have o: "dot (transpose_matrix ?q) ?r = ?r" if "pos self = Translation 0 0 0"
    using that dot_identity_left [of ?r] by (simp add: identity_matrix_def)
  show "\<exists>self'. Physical_update self = Inr self'
         \<and> upper_left_3x3 (normal_matrix self') = upper_left_3x3 ?r
         \<and> (pos self = Translation 0 0 0 \<longrightarrow> normal_matrix self' = ?r)"
    using u o by (simp add: upper_left_transposed_translation)
qed

theorem degenerate_and_identity_scale_witness:
  "\<not> valid_scale (scale degenerate_physical) \<and> valid_rotation (rot degenerate_physical)
   \<and> (\<exists>self'. Physical_update degenerate_physical = Inl (SingularMatrixError, self')
        \<and> normal_matrix self' = normal_matrix degenerate_physical)
   \<and> Scale_to_matrix (scale offset_physical) = identity_matrix
   \<and> valid_rotation (rot offset_physical)
   \<and> (\<exists>self'. Physical_update offset_physical = Inr self'
        \<and> upper_left_3x3 (normal_matrix self') = [[1, 0, 0], [0, 1, 0], [0, 0, 1]])"
proof -
  have d: "\<not> valid_scale (scale degenerate_physical) \<and> valid_rotation (rot degenerate_physical)"
    by (simp add: degenerate_physical_def)
  have i: "Scale_to_matrix (scale offset_physical) = identity_matrix
      \<and> valid_rotation (rot offset_physical)"
    by (simp add: offset_physical_def identity_matrix_def)
  have r: "upper_left_3x3 (Rotation_to_matrix (rot offset_physical))
      = [[1, 0, 0], [0, 1, 0], [0, 0, 1]]"
    by (simp add: offset_physical_def eval_simps)
  from degenerate_and_identity_scale [of degenerate_physical] d
  have 1: "\<exists>self'. Physical_update degenerate_physical = Inl (SingularMatrixError, self')
        \<and> normal_matrix self' = normal_matrix degenerate_physical"
    by blast
  from degenerate_and_identity_scale [of offset_physical] i r
  have 2: "\<exists>self'. Physical_update offset_physical = Inr self'
        \<and> upper_left_3x3 (normal_matrix self') = [[1, 0, 0], [0, 1, 0], [0, 0, 1]]"
    by metis
  from d 1 i 2 show ?thesis
    by blast
qed

text \<open>
  Claim C10. \<^verbatim>\<open>update\<close> is idempotent. The matrices a successful \<^verbatim>\<open>update\<close> leaves are
  determined by position, rotation and scale and, for a node with a parent, by the
  parent's global model and normal matrix: a later successful \<^verbatim>\<open>update\<close> of a node in
  which these are the same leaves all six matrices as the first one did. In particular
  a second \<^verbatim>\<open>update\<close> right after a successful one succeeds and changes nothing.
\<close>

theorem update_idempotent:
  assumes "PhysicalNode_update n = Inr n1"
  shows "(\<forall>m m1.
            PhysicalNode_update m = Inr m1
          \<and> pos (physical m) = pos (physical n1)
          \<and> rot (physical m) = rot (physical n1)
          \<and> scale (physical m) = scale (physical n1)
          \<and> map_option (\<lambda>p. (model_matrix_global p, normal_matrix_global p)) (parent m)
              = map_option (\<lambda>p. (model_matrix_global p, normal_matrix_global p)) (parent n1)
          \<longrightarrow> model_matrix (physical m1) = model_matrix (physical n1)
            \<and> normal_matrix (physical m1) = normal_matrix (physical n1)
            \<and> view_matrix (physical m1) = view_matrix (physical n1)
            \<and> model_matrix_global m1 = model_matrix_global n1
            \<and> normal_matrix_global m1 = normal_matrix_global n1
            \<and> view_matrix_global m1 = view_matrix_global n1)
       \<and> PhysicalNode_update n1 = Inr n1
       \<and> (\<forall>self1. Physical_update (physical n) = Inr self1 \<longrightarrow>
            Physical_update self1 = Inr self1)"
proof (intro conjI allI impI)
  fix m m1
  assume a: "PhysicalNode_update m = Inr m1
          \<and> pos (physical m) = pos (physical n1)
          \<and> rot (physical m) = rot (physical n1)
          \<and> scale (physical m) = scale (physical n1)
          \<and> map_option (\<lambda>p. (model_matrix_global p, normal_matrix_global p)) (parent m)
              = map_option (\<lambda>p. (model_matrix_global p, normal_matrix_global p)) (parent n1)"
  have l: "model_matrix (physical m1) = model_matrix (physical n1)
            \<and> normal_matrix (physical m1) = normal_matrix (physical n1)
            \<and> view_matrix (physical m1) = view_matrix (physical n1)"
    using assms a
    by (auto simp: PhysicalNode_update_Inr_iff Physical_update_Inr_iff split: option.splits)
  have p: "parent m1 = parent m" "parent n1 = parent n"
    using assms a by (auto simp: PhysicalNode_update_Inr_iff split: option.splits)
  have g: "model_matrix_global m1 = model_matrix_global n1
            \<and> normal_matrix_global m1 = normal_matrix_global n1
            \<and> view_matrix_global m1 = view_matrix_global n1"
  proof (cases "parent n")
    case None
    with a p have "parent m = None" by simp
    with None l assms a show ?thesis
      by (auto simp: PhysicalNode_update_Inr_iff)
  next
    case (Some q)
    with a p obtain r where r: "parent m = Some r"
      "model_matrix_global r = model_matrix_global q"
      "normal_matrix_global r = normal_matrix_global q"
      by (cases "parent m") auto
    with Some l assms a show ?thesis
      by (auto simp: PhysicalNode_update_Inr_iff)
  qed
  from l g show "model_matrix (physical m1) = model_matrix (physical n1)"
    "normal_matrix (physical m1) = normal_matrix (physical n1)"
    "view_matrix (physical m1) = view_matrix (physical n1)"
    "model_matrix_global m1 = model_matrix_global n1"
    "normal_matrix_global m1 = normal_matrix_global n1"
    "view_matrix_global m1 = view_matrix_global n1"
    by simp_all
next
  from assms obtain self1 where s: "Physical_update (physical n) = Inr self1"
    and n1: "n1 = (case parent n of
        Some p \<Rightarrow>
          PhysicalNode self1
            (dot (model_matrix_global p) (model_matrix self1))
            (dot (normal_matrix_global p) (normal_matrix self1))
            (dot (normal_matrix_global p) (normal_matrix self1))
            (parent n)
      | None \<Rightarrow>
          PhysicalNode self1 (model_matrix self1) (normal_matrix self1)
            (view_matrix self1) (parent n))"
    by (auto simp: PhysicalNode_update_Inr_iff)
  have "Physical_update (physical n1) = Inr self1"
    using Physical_update_again [OF s] by (simp add: n1 split: option.splits)
  then show "PhysicalNode_update n1 = Inr n1"
    unfolding PhysicalNode_update_Inr_iff
    by (intro exI [of _ self1]) (simp add: n1 split: option.splits)
next
  fix self1
  assume "Physical_update (physical n) = Inr self1"
  then show "Physical_update self1 = Inr self1"
    by (auto simp: Physical_update_Inr_iff)
qed

theorem update_idempotent_witness:
  "\<exists>n1. PhysicalNode_update example_child = Inr n1
     \<and> PhysicalNode_update n1 = Inr n1
     \<and> model_matrix_global n1 = Mat4 0 (- 2) 0 2 2 0 0 2 0 0 2 3 0 0 0 1
     \<and> (\<exists>m1. PhysicalNode_update
              (PhysicalNode (physical n1) zeros zeros zeros (parent n1)) = Inr m1
          \<and> model_matrix_global m1 = model_matrix_global n1
          \<and> normal_matrix_global m1 = normal_matrix_global n1
          \<and> view_matrix_global m1 = view_matrix_global n1
          \<and> model_matrix (physical m1) = model_matrix (physical n1))"
proof -
  obtain n1 where u: "PhysicalNode_update example_child = Inr n1"
    using PhysicalNode_update_valid [of example_child]
    by (auto simp: example_child_def example_physical_def)
  have g: "model_matrix_global n1 = Mat4 0 (- 2) 0 2 2 0 0 2 0 0 2 3 0 0 0 1"
    using u by (auto simp: example_child_def example_physical_def root_node_def eval_simps)
  have v: "valid_rotation (rot (physical n1))" "valid_scale (scale (physical n1))"
    using PhysicalNode_update_keeps [OF u]
    by (simp_all add: example_child_def example_physical_def)
  obtain m1 where
    m: "PhysicalNode_update (PhysicalNode (physical n1) zeros zeros zeros (parent n1)) = Inr m1"
    using PhysicalNode_update_valid [of "PhysicalNode (physical n1) zeros zeros zeros (parent n1)"] v
    by auto
  let ?m = "PhysicalNode (physical n1) zeros zeros zeros (parent n1)"
  have i: "PhysicalNode_update n1 = Inr n1"
    using update_idempotent [OF u] by (rule conjunct2 [THEN conjunct1])
  have "PhysicalNode_update ?m = Inr m1
      \<and> pos (physical ?m) = pos (physical n1)
      \<and> rot (physical ?m) = rot (physical n1)
      \<and> scale (physical ?m) = scale (physical n1)
      \<and> map_option (\<lambda>p. (model_matrix_global p, normal_matrix_global p)) (parent ?m)
          = map_option (\<lambda>p. (model_matrix_global p, normal_matrix_global p)) (parent n1)"
    using m by simp
  with update_idempotent [OF u, THEN conjunct1, rule_format, of ?m m1]
  have e: "model_matrix (physical m1) = model_matrix (physical n1)
      \<and> normal_matrix (physical m1) = normal_matrix (physical n1)
      \<and> view_matrix (physical m1) = view_matrix (physical n1)
      \<and> model_matrix_global m1 = model_matrix_global n1
      \<and> normal_matrix_global m1 = normal_matrix_global n1
      \<and> view_matrix_global m1 = view_matrix_global n1"
    by blast
  show ?thesis
    using u i g m e by blast
qed

end
